theory Spec2Isabelle
  imports Main "HOL-Library.Log_Nat"
begin

section \<open>Payment-provider controller: values, records and collaborators\<close>

text \<open>
  The controller of \<^verbatim>\<open>src/controller/paymentProvider.ts\<close> is embedded with explicit state
  passing. A JavaScript value that is a string or \<^verbatim>\<open>undefined\<close> is a \<open>string option\<close>
  (\<open>None\<close> is \<^verbatim>\<open>undefined\<close>). Every call that the source makes on a repository, on the
  logger or on the messaging helper is appended to a trace, so that "how many status updates
  were performed" is a count over the trace and not only a property of the final store.
  Requests are processed one after the other: the interleaving of concurrent requests is not
  part of this model, and the asynchronous wallet callback runs to completion inside the
  request that started it. A repository call answers (it finds the record or it does not);
  a failing database is not modelled. The records are those of the schema: a user has its
  id, a wish card its id and its owner \<^verbatim>\<open>belongsTo\<close>.
\<close>

type_synonym jsval = "string option"

record user =
  user_id :: string
  email :: string
  fName :: string

record wishCard =
  wc_id :: string
  belongsTo_id :: string
  status :: string
  wishItemName :: string
  wishItemPrice :: string

record agency =
  ag_agencyName :: string
  accountManager_email :: string

record donation =
  donationFrom :: string
  donationTo :: string
  donationCard :: string
  donationPrice :: jsval

datatype service = Stripe | Paypal

datatype channel = DonationConfirmationEmail | AgencyDonationEmail | DiscordDonationNotification

datatype error =
    WishCardNotFound jsval
  | UserNotFound jsval
  | AgencyNotFound jsval
  | StripeSignatureError string
  | PayPalVerifyError string
  | MessagingError channel
  | StripeError string
  | TypeError

datatype effect =
    UpdateWishCard string string
  | CreateDonation donation
  | LogInfo string
  | LogInfoError error
  | LogError error
  | Dispatch channel
  | Unhandled error

text \<open>
  The controller object (its field \<^verbatim>\<open>lastWishcardDonation\<close>) together with the stores behind
  the four repositories and the trace of performed calls.
\<close>

record world =
  lastWishcardDonation :: jsval
  users :: "jsval \<Rightarrow> user option"
  wishCards :: "jsval \<Rightarrow> wishCard option"
  agencies :: "jsval \<Rightarrow> agency option"
  donations :: "donation list"
  trace :: "effect list"

text \<open>The argument object of \<^verbatim>\<open>handleDonation\<close>.\<close>

record donation_args =
  service :: service
  userId :: jsval
  wishCardId :: jsval
  amount :: jsval
  userDonation :: jsval
  agencyName :: jsval

text \<open>\<^verbatim>\<open>event.data.object.metadata\<close> of a verified card-processor event.\<close>

record metadata =
  md_wishCardId :: jsval
  md_userId :: jsval
  md_amount :: jsval
  md_userDonation :: jsval
  md_agencyName :: jsval

text \<open>
  What \<^verbatim>\<open>constructEvent\<close> returns for a correctly signed body. The handler reads
  \<^verbatim>\<open>event.data.object.metadata.wishCardId\<close>; an event whose object carries no metadata
  (\<open>None\<close>) makes that read throw.
\<close>

record stripe_event =
  event_metadata :: "metadata option"

text \<open>
  What one request meets outside the controller: the configuration, the two provider SDKs
  and, for each call of \<^verbatim>\<open>handleDonation\<close>, whether the body of each of the three
  \<^verbatim>\<open>try\<close> blocks throws. The SDKs and the messaging helper are not part of the sources;
  they are parameters, and every theorem below holds for all of them.
\<close>

record env =
  NODE_ENV :: string
  SIGNING_SECRET :: string
  SIGNING_SECRET_LOCAL :: jsval
  constructEvent :: "string \<Rightarrow> string \<Rightarrow> string \<Rightarrow> error + stripe_event"
  getAndVerify :: "string \<Rightarrow> error option"
  sendThrows :: "service \<Rightarrow> channel \<Rightarrow> bool"

text \<open>
  \<^verbatim>\<open>req.body.resource.purchase_units[i]\<close>: its \<^verbatim>\<open>reference_id\<close>, and its \<^verbatim>\<open>amount\<close>
  object, which is absent (\<open>None\<close>) or carries a \<^verbatim>\<open>value\<close>. A body without
  \<^verbatim>\<open>resource\<close> or without \<^verbatim>\<open>purchase_units\<close> is the empty list of purchase units: the
  read of the first unit throws in all three cases. The body itself is the parsed object that
  the body parser hands over.
\<close>

record purchase_unit =
  reference_id :: jsval
  pu_amount :: "jsval option"

record request =
  stripe_signature :: jsval
  rawBody :: string
  event_type :: jsval
  purchase_units :: "purchase_unit list"

datatype body = Received | WebhookError error

record response =
  status_code :: nat
  body :: body

subsection \<open>Repositories and logger\<close>

text \<open>
  Modelled from the spec: the repository classes (\<^verbatim>\<open>UserRepository\<close>,
  \<^verbatim>\<open>WishCardRepository\<close>, \<^verbatim>\<open>AgencyRepository\<close>, \<^verbatim>\<open>DonationRepository\<close>) are imported by the
  controller and are not among the sources. The spec gives their interface as
  \<^verbatim>\<open>getByExternalId(id) -> Entity | NotFound\<close>, \<^verbatim>\<open>updateStatus(id, status)\<close> and
  \<^verbatim>\<open>create(record) -> record\<close>.
\<close>

definition getUserByObjectId :: "world \<Rightarrow> jsval \<Rightarrow> user option" where
  "getUserByObjectId w k = users w k"

definition getWishCardByObjectId :: "world \<Rightarrow> jsval \<Rightarrow> wishCard option" where
  "getWishCardByObjectId w k = wishCards w k"

definition getAgencyByName :: "world \<Rightarrow> jsval \<Rightarrow> agency option" where
  "getAgencyByName w k = agencies w k"

definition emit :: "effect \<Rightarrow> world \<Rightarrow> world" where
  "emit x w = w\<lparr>trace := trace w @ [x]\<rparr>"

definition updateWishCardByObjectId :: "string \<Rightarrow> string \<Rightarrow> world \<Rightarrow> world" where
  "updateWishCardByObjectId i st w =
     emit (UpdateWishCard i st)
       (w\<lparr>wishCards := (\<lambda>k. case wishCards w k of
                                None \<Rightarrow> None
                              | Some c \<Rightarrow> Some (if wc_id c = i then c\<lparr>status := st\<rparr> else c))\<rparr>)"

definition createNewDonation :: "donation \<Rightarrow> world \<Rightarrow> world" where
  "createNewDonation d w = emit (CreateDonation d) (w\<lparr>donations := donations w @ [d]\<rparr>)"

subsection \<open>Commit: \<^verbatim>\<open>handleDonation\<close>\<close>

text \<open>
  One \<^verbatim>\<open>try { log.info(msg); await Messaging.send...(...) } catch (error) { log.error(error) }\<close>
  block. \<open>Dispatch c\<close> records that the block for channel \<open>c\<close> was entered and its
  send attempted; a throwing block is logged and control continues after it.
\<close>

definition notify :: "env \<Rightarrow> service \<Rightarrow> channel \<Rightarrow> string \<Rightarrow> world \<Rightarrow> world" where
  "notify e s c msg w =
     (let w1 = emit (Dispatch c) (emit (LogInfo msg) w)
      in if sendThrows e s c then emit (LogError (MessagingError c)) w1 else w1)"

text \<open>
  The result is the thrown error, if any, and the world as the call leaves it: a throw
  after the status update keeps the update.
\<close>

definition handleDonation :: "env \<Rightarrow> donation_args \<Rightarrow> world \<Rightarrow> error option \<times> world" where
  "handleDonation e a w =
     (let user = getUserByObjectId w (userId a);
          wishCard = getWishCardByObjectId w (wishCardId a);
          agency = getAgencyByName w (agencyName a)
      in (case wishCard of
            None \<Rightarrow> (Some (WishCardNotFound (wishCardId a)), w)
          | Some wc \<Rightarrow>
              (let w1 = updateWishCardByObjectId (wc_id wc) ''donated'' w
               in (case user of
                     None \<Rightarrow> (Some (UserNotFound (userId a)), w1)
                   | Some u \<Rightarrow>
                       (case agency of
                          None \<Rightarrow> (Some (AgencyNotFound (agencyName a)), w1)
                        | Some ag \<Rightarrow>
                            (let w2 = createNewDonation
                                        \<lparr>donationFrom = user_id u,
                                         donationTo = belongsTo_id wc,
                                         donationCard = wc_id wc,
                                         donationPrice = amount a\<rparr> w1;
                                 w3 = notify e (service a) DonationConfirmationEmail
                                        ''Sending donation confirmation email'' w2;
                                 w4 = notify e (service a) AgencyDonationEmail
                                        ''Sending agency donation email'' w3;
                                 w5 = notify e (service a) DiscordDonationNotification
                                        ''Sending discord donation notification'' w4
                             in (None, w5)))))))"

subsection \<open>Webhook: \<^verbatim>\<open>handlePostWebhook\<close>\<close>

text \<open>\<^verbatim>\<open>String.prototype.split\<close> with a one-character separator, and an array read that
  yields \<^verbatim>\<open>undefined\<close> out of range.\<close>

fun js_split :: "char \<Rightarrow> string \<Rightarrow> string list" where
  "js_split sep [] = [[]]"
| "js_split sep (c # cs) =
     (if c = sep then [] # js_split sep cs
      else (case js_split sep cs of [] \<Rightarrow> [[c]] | p # ps \<Rightarrow> (c # p) # ps))"

definition js_index :: "string list \<Rightarrow> nat \<Rightarrow> jsval" where
  "js_index xs i = (if i < length xs then Some (xs ! i) else None)"

definition signingSecret :: "env \<Rightarrow> string" where
  "signingSecret e =
     (case SIGNING_SECRET_LOCAL e of
        None \<Rightarrow> SIGNING_SECRET e
      | Some local \<Rightarrow>
          if NODE_ENV e = ''development'' \<and> local \<noteq> [] then local else SIGNING_SECRET e)"

text \<open>The argument object of the card path's call of \<^verbatim>\<open>handleDonation\<close> (lines 198 to 205).\<close>

definition stripeDonationArgs :: "metadata \<Rightarrow> donation_args" where
  "stripeDonationArgs md =
     \<lparr>service = Stripe,
      userId = md_userId md,
      wishCardId = md_wishCardId md,
      amount = md_amount md,
      userDonation = md_userDonation md,
      agencyName = md_agencyName md\<rparr>"

text \<open>
  The body of the \<^verbatim>\<open>try\<close> block of the card path (lines 189 to 206). The condition of line
  195 reads the metadata before the slot is written: without metadata it throws a
  \<^verbatim>\<open>TypeError\<close> and the slot keeps its value.
\<close>

definition stripeWebhook :: "env \<Rightarrow> request \<Rightarrow> string \<Rightarrow> world \<Rightarrow> error option \<times> world" where
  "stripeWebhook e r signature w =
     (case constructEvent e (rawBody r) signature (signingSecret e) of
        Inl err \<Rightarrow> (Some err, w)
      | Inr event \<Rightarrow>
          (case event_metadata event of
             None \<Rightarrow> (Some TypeError, w)
           | Some md \<Rightarrow>
               if lastWishcardDonation w \<noteq> md_wishCardId md then
                 handleDonation e (stripeDonationArgs md)
                   (w\<lparr>lastWishcardDonation := md_wishCardId md\<rparr>)
               else (None, w)))"

text \<open>The decoding inside the wallet callback (lines 222 to 236), given the first
  purchase unit's reference string.\<close>

definition paypalDonationArgs :: "string \<Rightarrow> jsval \<Rightarrow> donation_args" where
  "paypalDonationArgs ref amt =
     (let data = js_split CHR ''%'' ref
      in \<lparr>service = Paypal,
          userId = js_index data 0,
          wishCardId = js_index data 1,
          amount = amt,
          userDonation = js_index data 2,
          agencyName = js_index data 3\<rparr>)"

text \<open>
  The wallet path (lines 214 to 240). An error thrown inside the callback rejects a promise
  that nobody awaits: it is recorded as \<open>Unhandled\<close> and does not reach the response.
  Line 222 throws when there is no first purchase unit or it has no reference string, and
  line 227 throws when the unit has no \<^verbatim>\<open>amount\<close> object; both come before the commit.
\<close>

definition paypalWebhook :: "env \<Rightarrow> request \<Rightarrow> world \<Rightarrow> world" where
  "paypalWebhook e r w =
     (if event_type r = Some ''CHECKOUT.ORDER.APPROVED'' then
        (case getAndVerify e (rawBody r) of
           Some err \<Rightarrow> emit (Unhandled err) (emit (LogInfoError err) w)
         | None \<Rightarrow>
             (case purchase_units r of
                [] \<Rightarrow> emit (Unhandled TypeError) w
              | pu # _ \<Rightarrow>
                  (case reference_id pu of
                     None \<Rightarrow> emit (Unhandled TypeError) w
                   | Some ref \<Rightarrow>
                       (case pu_amount pu of
                          None \<Rightarrow> emit (Unhandled TypeError) w
                        | Some amt \<Rightarrow>
                            (case handleDonation e (paypalDonationArgs ref amt) w of
                               (None, w') \<Rightarrow> w'
                             | (Some err, w') \<Rightarrow> emit (Unhandled err) w')))))
      else w)"

definition received :: response where
  "received = \<lparr>status_code = 200, body = Received\<rparr>"

text \<open>
  The handler. \<^verbatim>\<open>if (signature)\<close> is JavaScript truthiness: an absent header and an
  empty one both skip the card path. The \<^verbatim>\<open>catch\<close> of the card path logs the error and
  returns the 400 response, so the wallet path is not reached after it.
\<close>

definition handlePostWebhook :: "env \<Rightarrow> request \<Rightarrow> world \<Rightarrow> response \<times> world" where
  "handlePostWebhook e r w =
     (case stripe_signature r of
        None \<Rightarrow> (received, paypalWebhook e r w)
      | Some signature \<Rightarrow>
          if signature = [] then (received, paypalWebhook e r w)
          else
            (case stripeWebhook e r signature w of
               (Some err, w1) \<Rightarrow>
                 (\<lparr>status_code = 400, body = WebhookError err\<rparr>, emit (LogError err) w1)
             | (None, w1) \<Rightarrow> (received, paypalWebhook e r w1)))"

text \<open>Observations on a world: the status updates and the dispatches it has performed.\<close>

definition statusUpdates :: "world \<Rightarrow> effect list" where
  "statusUpdates w = filter (\<lambda>x. case x of UpdateWishCard _ _ \<Rightarrow> True | _ \<Rightarrow> False) (trace w)"

definition dispatches :: "world \<Rightarrow> effect list" where
  "dispatches w = filter (\<lambda>x. case x of Dispatch _ \<Rightarrow> True | _ \<Rightarrow> False) (trace w)"

text \<open>The same request delivered \<open>n\<close> more times in a row, as a provider's retry does.\<close>

fun redeliver :: "env \<Rightarrow> request \<Rightarrow> nat \<Rightarrow> world \<Rightarrow> world" where
  "redeliver e r 0 w = w"
| "redeliver e r (Suc n) w = redeliver e r n (snd (handlePostWebhook e r w))"

subsection \<open>Numbers: binary64 arithmetic and \<^verbatim>\<open>parseFloat\<close>\<close>

text \<open>
  A JavaScript number is an IEEE 754 binary64 value: a rational that the format represents,
  an infinity, or NaN. The sign of zero is not kept; nothing below observes it. Every
  arithmetic operation computes the exact rational result and rounds it to the nearest
  representable value, ties to the even significand: \<open>round64\<close> does this with 53 bits of
  significand, the subnormal range below \<open>2 ^ -1022\<close> and overflow to infinity when
  the rounded value reaches \<open>2 ^ 1024\<close>, that is when its binary exponent is 1024.
\<close>

datatype double = Num rat | PosInf | NegInf | NaN

definition pow2 :: "int \<Rightarrow> rat" where
  "pow2 k = (if 0 \<le> k then 2 ^ nat k else 1 / 2 ^ nat (- k))"

definition pow10 :: "int \<Rightarrow> rat" where
  "pow10 k = (if 0 \<le> k then 10 ^ nat k else 1 / 10 ^ nat (- k))"

text \<open>The binary exponent of a positive rational \<open>x\<close>: the \<open>k\<close> with
  \<open>2 ^ k \<le> x < 2 ^ (k + 1)\<close>, found from the bit lengths of numerator and denominator.\<close>

definition ilog2 :: "rat \<Rightarrow> int" where
  "ilog2 x =
     (let k = bitlen (fst (quotient_of x)) - bitlen (snd (quotient_of x))
      in if pow2 k \<le> x then k else k - 1)"

definition roundHalfEven :: "rat \<Rightarrow> int" where
  "roundHalfEven q =
     (let n = \<lfloor>q\<rfloor>; r = q - of_int n
      in if r < 1 / 2 then n else if 1 / 2 < r then n + 1 else if even n then n else n + 1)"

definition round64 :: "rat \<Rightarrow> double" where
  "round64 x =
     (if x = 0 then Num 0
      else
        let e = max (ilog2 \<bar>x\<bar>) (- 1022);
            ulp = pow2 (e - 52);
            y = of_int (roundHalfEven (x / ulp)) * ulp
        in if y = 0 then Num 0
           else if 1024 \<le> ilog2 \<bar>y\<bar> then (if 0 < y then PosInf else NegInf)
           else Num y)"

fun dadd :: "double \<Rightarrow> double \<Rightarrow> double" where
  "dadd (Num a) (Num b) = round64 (a + b)"
| "dadd NaN _ = NaN"
| "dadd _ NaN = NaN"
| "dadd PosInf NegInf = NaN"
| "dadd NegInf PosInf = NaN"
| "dadd PosInf _ = PosInf"
| "dadd NegInf _ = NegInf"
| "dadd _ PosInf = PosInf"
| "dadd _ NegInf = NegInf"

fun dmul :: "double \<Rightarrow> double \<Rightarrow> double" where
  "dmul (Num a) (Num b) = round64 (a * b)"
| "dmul NaN _ = NaN"
| "dmul _ NaN = NaN"
| "dmul (Num a) PosInf = (if a = 0 then NaN else if 0 < a then PosInf else NegInf)"
| "dmul (Num a) NegInf = (if a = 0 then NaN else if 0 < a then NegInf else PosInf)"
| "dmul PosInf (Num b) = (if b = 0 then NaN else if 0 < b then PosInf else NegInf)"
| "dmul NegInf (Num b) = (if b = 0 then NaN else if 0 < b then NegInf else PosInf)"
| "dmul PosInf PosInf = PosInf"
| "dmul NegInf NegInf = PosInf"
| "dmul PosInf NegInf = NegInf"
| "dmul NegInf PosInf = NegInf"

text \<open>\<^verbatim>\<open>Math.floor\<close>.\<close>

fun dfloor :: "double \<Rightarrow> double" where
  "dfloor (Num q) = Num (of_int \<lfloor>q\<rfloor>)"
| "dfloor d = d"

text \<open>
  \<^verbatim>\<open>parseFloat\<close> on a string: leading white space is skipped, then the longest prefix that is
  a decimal literal (sign, digits, fraction, exponent) or \<^verbatim>\<open>Infinity\<close> is read, what follows
  it is ignored, and the exact decimal value is rounded once. No digit at all gives NaN.
\<close>

definition isDigit :: "char \<Rightarrow> bool" where
  "isDigit c = (c \<in> set ''0123456789'')"

definition isWhiteSpace :: "char \<Rightarrow> bool" where
  "isWhiteSpace c = (c \<in> set [CHR '' '', CHR 0x09, CHR 0x0A, CHR 0x0B, CHR 0x0C, CHR 0x0D])"

definition digitsValue :: "string \<Rightarrow> nat" where
  "digitsValue ds = foldl (\<lambda>a c. 10 * a + (of_char c - 48)) 0 ds"

definition exponentPart :: "string \<Rightarrow> int" where
  "exponentPart s =
     (case s of
        [] \<Rightarrow> 0
      | c # cs \<Rightarrow>
          if c = CHR ''e'' \<or> c = CHR ''E'' then
            (case cs of
               [] \<Rightarrow> 0
             | d # ds \<Rightarrow>
                 if d = CHR ''-'' then - int (digitsValue (takeWhile isDigit ds))
                 else if d = CHR ''+'' then int (digitsValue (takeWhile isDigit ds))
                 else int (digitsValue (takeWhile isDigit cs)))
          else 0)"

definition parseFloat :: "string \<Rightarrow> double" where
  "parseFloat str =
     (let s0 = dropWhile isWhiteSpace str;
          neg = (case s0 of [] \<Rightarrow> False | c # _ \<Rightarrow> c = CHR ''-'');
          s1 = (case s0 of
                  [] \<Rightarrow> []
                | c # cs \<Rightarrow> if c = CHR ''-'' \<or> c = CHR ''+'' then cs else s0)
      in if take 8 s1 = ''Infinity'' then (if neg then NegInf else PosInf)
         else
           let ip = takeWhile isDigit s1;
               r1 = dropWhile isDigit s1;
               fp = (case r1 of
                       [] \<Rightarrow> []
                     | c # cs \<Rightarrow> if c = CHR ''.'' then takeWhile isDigit cs else []);
               r2 = (case r1 of
                       [] \<Rightarrow> []
                     | c # cs \<Rightarrow> if c = CHR ''.'' then dropWhile isDigit cs else r1);
               mv = (of_nat (digitsValue ip) + of_nat (digitsValue fp) / 10 ^ length fp)
                      * pow10 (exponentPart r2)
           in if ip = [] \<and> fp = [] then NaN
              else round64 (if neg then - mv else mv))"

subsection \<open>Create intent: \<^verbatim>\<open>handlePostCreateIntent\<close>\<close>

text \<open>
  The request body and \<^verbatim>\<open>res.locals.user._id\<close>; the object handed to
  \<^verbatim>\<open>paymentIntents.create\<close>; and the two collaborators that are not among the sources, the
  price helper \<^verbatim>\<open>Utils.calculateWishItemTotalPrice\<close> and the card processor's API, taken as
  parameters. The helper's result and the body's \<^verbatim>\<open>userDonation\<close> go through
  \<^verbatim>\<open>parseFloat\<close>, so both are taken as the text that \<^verbatim>\<open>parseFloat\<close> reads. A call of the API that throws rejects the handler, which has no
  \<^verbatim>\<open>try\<close>.
\<close>

record create_intent_request =
  ci_wishCardId :: jsval
  ci_email :: jsval
  ci_agencyName :: jsval
  ci_userDonation :: jsval
  ci_userId :: string

record payment_intent_params =
  pi_amount :: double
  pi_currency :: string
  pi_receipt_email :: jsval
  pi_wishCardId :: string
  pi_userId :: string
  pi_agencyName :: jsval
  pi_userDonation :: jsval
  pi_metadata_amount :: double

record shop =
  calculateWishItemTotalPrice :: "string \<Rightarrow> string"
  paymentIntents_create :: "payment_intent_params \<Rightarrow> error + jsval"

datatype intent_response = ClientSecret jsval | ErrorResponse string | Rejected error

definition truthy :: "jsval \<Rightarrow> bool" where
  "truthy v = (case v of None \<Rightarrow> False | Some s \<Rightarrow> s \<noteq> [])"

definition PENNY :: double where
  "PENNY = Num 100"

text \<open>Lines 148 to 154: the total in dollars, with the supplemental amount added when the
  request carries one.\<close>

definition totalItemPrice :: "shop \<Rightarrow> create_intent_request \<Rightarrow> wishCard \<Rightarrow> double" where
  "totalItemPrice c rq wishCard =
     (let total = parseFloat (calculateWishItemTotalPrice c (wishItemPrice wishCard))
      in if truthy (ci_userDonation rq)
         then (case ci_userDonation rq of
                 None \<Rightarrow> total
               | Some supplement \<Rightarrow> dadd total (parseFloat supplement))
         else total)"

text \<open>Lines 156 to 167: the argument of \<^verbatim>\<open>paymentIntents.create\<close>.\<close>

definition intentParams :: "shop \<Rightarrow> create_intent_request \<Rightarrow> wishCard \<Rightarrow> payment_intent_params" where
  "intentParams c rq wishCard =
     \<lparr>pi_amount = dfloor (dmul (totalItemPrice c rq wishCard) PENNY),
      pi_currency = ''usd'',
      pi_receipt_email = ci_email rq,
      pi_wishCardId = wc_id wishCard,
      pi_userId = ci_userId rq,
      pi_agencyName = ci_agencyName rq,
      pi_userDonation = ci_userDonation rq,
      pi_metadata_amount = totalItemPrice c rq wishCard\<rparr>"

text \<open>
  Modelled from the spec: \<^verbatim>\<open>handleError\<close> belongs to the base controller, which is not among
  the sources; the spec calls its result an error response.
\<close>

definition handlePostCreateIntent :: "shop \<Rightarrow> create_intent_request \<Rightarrow> world \<Rightarrow> intent_response" where
  "handlePostCreateIntent c rq w =
     (case getWishCardByObjectId w (ci_wishCardId rq) of
        None \<Rightarrow> ErrorResponse ''Wishcard not found''
      | Some wishCard \<Rightarrow>
          (case paymentIntents_create c (intentParams c rq wishCard) of
             Inl err \<Rightarrow> Rejected err
           | Inr client_secret \<Rightarrow> ClientSecret client_secret))"

subsection \<open>A concrete deployment, for evaluating the model\<close>

definition user1 :: user where
  "user1 = \<lparr>user_id = ''u1'', email = ''donor@example.org'', fName = ''Dana''\<rparr>"

definition card9 :: wishCard where
  "card9 = \<lparr>wc_id = ''i9'', belongsTo_id = ''a1'', status = ''published'',
            wishItemName = ''bicycle'', wishItemPrice = ''32.50''\<rparr>"

definition hope :: agency where
  "hope = \<lparr>ag_agencyName = ''HopeAgency'', accountManager_email = ''hope@example.org''\<rparr>"

definition world0 :: world where
  "world0 =
     \<lparr>lastWishcardDonation = Some [],
      users = (\<lambda>k. if k = Some ''u1'' then Some user1 else None),
      wishCards = (\<lambda>k. if k = Some ''i9'' then Some card9 else None),
      agencies = (\<lambda>k. if k = Some ''HopeAgency'' then Some hope else None),
      donations = [],
      trace = []\<rparr>"

definition meta9 :: metadata where
  "meta9 = \<lparr>md_wishCardId = Some ''i9'', md_userId = Some ''u1'', md_amount = Some ''37.5'',
            md_userDonation = Some ''5.00'', md_agencyName = Some ''HopeAgency''\<rparr>"

definition meta7 :: metadata where
  "meta7 = \<lparr>md_wishCardId = Some ''i7'', md_userId = Some ''u1'', md_amount = Some ''12'',
            md_userDonation = None, md_agencyName = Some ''HopeAgency''\<rparr>"

text \<open>The card SDK accepts the signature \<open>''good''\<close> only. The body \<open>''other''\<close> is an
  event for item \<open>i7\<close>, the body \<open>''bare''\<close> an event without metadata, every other body
  the event for item \<open>i9\<close>. The wallet SDK verifies every body; the first two notification
  channels work and the public announcement fails.\<close>

definition env0 :: env where
  "env0 =
     \<lparr>NODE_ENV = ''production'',
      SIGNING_SECRET = ''whsec'',
      SIGNING_SECRET_LOCAL = None,
      constructEvent = (\<lambda>raw sg secret.
         if sg = ''good'' \<and> secret = ''whsec'' then
           Inr \<lparr>event_metadata =
                  (if raw = ''other'' then Some meta7
                   else if raw = ''bare'' then None else Some meta9)\<rparr>
         else Inl (StripeSignatureError ''No signatures found matching the expected signature'')),
      getAndVerify = (\<lambda>raw. None),
      sendThrows = (\<lambda>s c. c = DiscordDonationNotification)\<rparr>"

definition cardRequest :: request where
  "cardRequest =
     \<lparr>stripe_signature = Some ''good'', rawBody = ''{}'', event_type = None,
      purchase_units = []\<rparr>"

definition walletRequest :: request where
  "walletRequest =
     \<lparr>stripe_signature = None, rawBody = ''{}'',
      event_type = Some ''CHECKOUT.ORDER.APPROVED'',
      purchase_units = [\<lparr>reference_id = Some ''u1%i9%5.00%HopeAgency'',
                         pu_amount = Some (Some ''37.50'')\<rparr>]\<rparr>"

definition donation9 :: "jsval \<Rightarrow> donation" where
  "donation9 price =
     \<lparr>donationFrom = ''u1'', donationTo = ''a1'', donationCard = ''i9'', donationPrice = price\<rparr>"

definition forgedRequest :: request where
  "forgedRequest =
     \<lparr>stripe_signature = Some ''bad'', rawBody = ''{}'', event_type = None,
      purchase_units = []\<rparr>"

definition args9 :: donation_args where
  "args9 =
     \<lparr>service = Stripe, userId = Some ''u1'', wishCardId = Some ''i9'', amount = Some ''37.5'',
      userDonation = Some ''5.00'', agencyName = Some ''HopeAgency''\<rparr>"

text \<open>The same intent from a payer that no user record matches.\<close>

definition strangerArgs :: donation_args where
  "strangerArgs =
     \<lparr>service = Stripe, userId = Some ''u404'', wishCardId = Some ''i9'', amount = Some ''37.5'',
      userDonation = Some ''5.00'', agencyName = Some ''HopeAgency''\<rparr>"

text \<open>The deployment without any wish card, without any user, and with the gate already
  remembering \<open>i9\<close>.\<close>

definition bareWorld :: world where
  "bareWorld = world0\<lparr>wishCards := (\<lambda>k. None)\<rparr>"

definition strangerWorld :: world where
  "strangerWorld = world0\<lparr>users := (\<lambda>k. None)\<rparr>"

definition gatedWorld :: world where
  "gatedWorld = world0\<lparr>lastWishcardDonation := Some ''i9''\<rparr>"

definition otherRequest :: request where
  "otherRequest =
     \<lparr>stripe_signature = Some ''good'', rawBody = ''other'', event_type = None,
      purchase_units = []\<rparr>"

definition bareRequest :: request where
  "bareRequest =
     \<lparr>stripe_signature = Some ''good'', rawBody = ''bare'', event_type = None,
      purchase_units = []\<rparr>"

text \<open>The world after the card event for \<open>i9\<close> has failed for want of its payer, the world
  after the card event for \<open>i7\<close> has followed it, and a world in which the payer has
  registered since.\<close>

definition afterFailure :: world where
  "afterFailure = snd (handlePostWebhook env0 cardRequest strangerWorld)"

definition afterOther :: world where
  "afterOther = snd (handlePostWebhook env0 otherRequest afterFailure)"

definition registered :: "world \<Rightarrow> world" where
  "registered w = w\<lparr>users := users world0\<rparr>"

text \<open>A shop whose price helper returns the item price as the total and whose card
  processor accepts every intent; two more wish cards; three create-intent requests.\<close>

definition shop0 :: shop where
  "shop0 =
     \<lparr>calculateWishItemTotalPrice = (\<lambda>price. price),
      paymentIntents_create = (\<lambda>params. Inr (Some ''pi_secret''))\<rparr>"

definition card57 :: wishCard where
  "card57 = \<lparr>wc_id = ''i57'', belongsTo_id = ''a1'', status = ''published'',
             wishItemName = ''pencil'', wishItemPrice = ''0.57''\<rparr>"

definition card1799 :: wishCard where
  "card1799 = \<lparr>wc_id = ''i1799'', belongsTo_id = ''a1'', status = ''published'',
               wishItemName = ''book'', wishItemPrice = ''17.99''\<rparr>"

definition shopWorld :: world where
  "shopWorld =
     world0\<lparr>wishCards := (\<lambda>k. if k = Some ''i9'' then Some card9
                              else if k = Some ''i57'' then Some card57
                              else if k = Some ''i1799'' then Some card1799 else None)\<rparr>"

definition intent9 :: create_intent_request where
  "intent9 =
     \<lparr>ci_wishCardId = Some ''i9'', ci_email = Some ''donor@example.org'',
      ci_agencyName = Some ''HopeAgency'', ci_userDonation = Some ''5.00'', ci_userId = ''u1''\<rparr>"

definition intent57 :: create_intent_request where
  "intent57 =
     \<lparr>ci_wishCardId = Some ''i57'', ci_email = Some ''donor@example.org'',
      ci_agencyName = Some ''HopeAgency'', ci_userDonation = None, ci_userId = ''u1''\<rparr>"

definition intent1799 :: create_intent_request where
  "intent1799 =
     \<lparr>ci_wishCardId = Some ''i1799'', ci_email = Some ''donor@example.org'',
      ci_agencyName = Some ''HopeAgency'', ci_userDonation = Some ''1.00'', ci_userId = ''u1''\<rparr>"


section \<open>Frame lemmas\<close>

text \<open>What each repository, logger and messaging call leaves untouched.\<close>

lemma emit_simps [simp]:
  "lastWishcardDonation (emit x w) = lastWishcardDonation w"
  "users (emit x w) = users w"
  "wishCards (emit x w) = wishCards w"
  "agencies (emit x w) = agencies w"
  "donations (emit x w) = donations w"
  "trace (emit x w) = trace w @ [x]"
  by (simp_all add: emit_def)

lemma update_simps [simp]:
  "lastWishcardDonation (updateWishCardByObjectId i st w) = lastWishcardDonation w"
  "users (updateWishCardByObjectId i st w) = users w"
  "agencies (updateWishCardByObjectId i st w) = agencies w"
  "donations (updateWishCardByObjectId i st w) = donations w"
  "trace (updateWishCardByObjectId i st w) = trace w @ [UpdateWishCard i st]"
  by (simp_all add: updateWishCardByObjectId_def)

lemma create_simps [simp]:
  "lastWishcardDonation (createNewDonation d w) = lastWishcardDonation w"
  "users (createNewDonation d w) = users w"
  "wishCards (createNewDonation d w) = wishCards w"
  "agencies (createNewDonation d w) = agencies w"
  "donations (createNewDonation d w) = donations w @ [d]"
  "trace (createNewDonation d w) = trace w @ [CreateDonation d]"
  by (simp_all add: createNewDonation_def)

lemma notify_simps [simp]:
  "lastWishcardDonation (notify e s c m w) = lastWishcardDonation w"
  "users (notify e s c m w) = users w"
  "wishCards (notify e s c m w) = wishCards w"
  "agencies (notify e s c m w) = agencies w"
  "donations (notify e s c m w) = donations w"
  "trace (notify e s c m w) =
     trace w @ [LogInfo m, Dispatch c] @ (if sendThrows e s c then [LogError (MessagingError c)] else [])"
  by (simp_all add: notify_def Let_def)

lemma handleDonation_frame:
  "lastWishcardDonation (snd (handleDonation e a w)) = lastWishcardDonation w"
  "users (snd (handleDonation e a w)) = users w"
  "agencies (snd (handleDonation e a w)) = agencies w"
  by (simp_all add: handleDonation_def Let_def split: option.splits)

lemma handleDonation_throw_donations:
  "fst (handleDonation e a w) = Some err \<Longrightarrow> donations (snd (handleDonation e a w)) = donations w"
  by (auto simp add: handleDonation_def Let_def split: option.splits)

lemma handleDonation_throw_dispatches:
  "fst (handleDonation e a w) = Some err \<Longrightarrow> dispatches (snd (handleDonation e a w)) = dispatches w"
  by (auto simp add: handleDonation_def dispatches_def Let_def split: option.splits)

lemma js_split_nonempty: "js_split sep s \<noteq> []"
  by (induction s) (auto split: list.splits)

lemma js_split_plain: "sep \<notin> set a \<Longrightarrow> js_split sep a = [a]"
  by (induction a) (auto split: list.splits)

lemma js_split_field: "sep \<notin> set a \<Longrightarrow> js_split sep (a @ sep # rest) = a # js_split sep rest"
  by (induction a) (auto split: list.splits simp: js_split_nonempty)

section \<open>The handler, case by case\<close>

lemma handleDonation_error:
  "fst (handleDonation e a w) =
     (if getWishCardByObjectId w (wishCardId a) = None
        then Some (WishCardNotFound (wishCardId a))
      else if getUserByObjectId w (userId a) = None then Some (UserNotFound (userId a))
      else if getAgencyByName w (agencyName a) = None then Some (AgencyNotFound (agencyName a))
      else None)"
  by (auto simp add: handleDonation_def Let_def split: option.splits)

lemma lookups_last [simp]:
  "getWishCardByObjectId (w\<lparr>lastWishcardDonation := x\<rparr>) k = getWishCardByObjectId w k"
  "getUserByObjectId (w\<lparr>lastWishcardDonation := x\<rparr>) k = getUserByObjectId w k"
  "getAgencyByName (w\<lparr>lastWishcardDonation := x\<rparr>) k = getAgencyByName w k"
  by (simp_all add: getWishCardByObjectId_def getUserByObjectId_def getAgencyByName_def)

lemma stripeDonationArgs_simps [simp]:
  "wishCardId (stripeDonationArgs md) = md_wishCardId md"
  "userId (stripeDonationArgs md) = md_userId md"
  "agencyName (stripeDonationArgs md) = md_agencyName md"
  "amount (stripeDonationArgs md) = md_amount md"
  "service (stripeDonationArgs md) = Stripe"
  by (simp_all add: stripeDonationArgs_def)

lemma handlePostWebhook_signed:
  assumes "stripe_signature r = Some s" and "s \<noteq> []"
  shows "handlePostWebhook e r w =
     (case fst (stripeWebhook e r s w) of
        None \<Rightarrow> (received, paypalWebhook e r (snd (stripeWebhook e r s w)))
      | Some err \<Rightarrow> (\<lparr>status_code = 400, body = WebhookError err\<rparr>,
                     emit (LogError err) (snd (stripeWebhook e r s w))))"
  using assms by (simp add: handlePostWebhook_def split: prod.splits option.splits)

lemma paypalWebhook_skip:
  "event_type r \<noteq> Some ''CHECKOUT.ORDER.APPROVED'' \<Longrightarrow> paypalWebhook e r w = w"
  by (simp add: paypalWebhook_def)

lemma paypalWebhook_slot:
  "lastWishcardDonation (paypalWebhook e r w) = lastWishcardDonation w"
proof -
  have "lastWishcardDonation (case handleDonation e a w of
            (None, w') \<Rightarrow> w' | (Some err, w') \<Rightarrow> emit (Unhandled err) w') =
        lastWishcardDonation w" for a
    using handleDonation_frame(1) [of e a w]
    by (cases "handleDonation e a w") (auto split: option.splits)
  then show ?thesis
    by (simp add: paypalWebhook_def split: option.splits list.splits)
qed

lemma stripeWebhook_gate:
  assumes "constructEvent e (rawBody r) s (signingSecret e) = Inr event"
    and "event_metadata event = Some md"
  shows "lastWishcardDonation (snd (stripeWebhook e r s w)) = md_wishCardId md"
  using assms by (simp add: stripeWebhook_def handleDonation_frame)

lemma stripeWebhook_duplicate:
  assumes "constructEvent e (rawBody r) s (signingSecret e) = Inr event"
    and "event_metadata event = Some md"
    and "lastWishcardDonation w = md_wishCardId md"
  shows "stripeWebhook e r s w = (None, w)"
  using assms by (simp add: stripeWebhook_def)

lemma stripeWebhook_commit:
  assumes "constructEvent e (rawBody r) s (signingSecret e) = Inr event"
    and "event_metadata event = Some md"
    and "lastWishcardDonation w \<noteq> md_wishCardId md"
  shows "stripeWebhook e r s w =
           handleDonation e (stripeDonationArgs md) (w\<lparr>lastWishcardDonation := md_wishCardId md\<rparr>)"
  using assms by (simp add: stripeWebhook_def)

lemma card_duplicate_noop:
  assumes "stripe_signature r = Some s" and "s \<noteq> []"
    and "constructEvent e (rawBody r) s (signingSecret e) = Inr event"
    and "event_metadata event = Some md"
    and "event_type r \<noteq> Some ''CHECKOUT.ORDER.APPROVED''"
    and "lastWishcardDonation w = md_wishCardId md"
  shows "handlePostWebhook e r w = (received, w)"
  using assms by (simp add: handlePostWebhook_def stripeWebhook_duplicate paypalWebhook_skip)

lemma redeliver_duplicate:
  assumes "stripe_signature r = Some s" and "s \<noteq> []"
    and "constructEvent e (rawBody r) s (signingSecret e) = Inr event"
    and "event_metadata event = Some md"
    and "event_type r \<noteq> Some ''CHECKOUT.ORDER.APPROVED''"
    and "lastWishcardDonation w = md_wishCardId md"
  shows "redeliver e r n w = w"
  using assms by (induction n) (simp_all add: card_duplicate_noop)

lemma card_first_delivery:
  assumes "stripe_signature r = Some s" and "s \<noteq> []"
    and "event_type r \<noteq> Some ''CHECKOUT.ORDER.APPROVED''"
  shows "handlePostWebhook e r w =
     (case fst (stripeWebhook e r s w) of
        None \<Rightarrow> (received, snd (stripeWebhook e r s w))
      | Some err \<Rightarrow> (\<lparr>status_code = 400, body = WebhookError err\<rparr>,
                     emit (LogError err) (snd (stripeWebhook e r s w))))"
  using assms
  by (simp add: handlePostWebhook_def paypalWebhook_skip split: prod.splits option.splits)

text \<open>The slot is written by nothing but a verified card event that carries metadata: after
  any request it holds that event's item id, and otherwise what it held before.\<close>

lemma slot_after_delivery:
  "lastWishcardDonation (snd (handlePostWebhook e r w)) =
     (case stripe_signature r of
        None \<Rightarrow> lastWishcardDonation w
      | Some s \<Rightarrow>
          if s = [] then lastWishcardDonation w
          else (case constructEvent e (rawBody r) s (signingSecret e) of
                  Inl err \<Rightarrow> lastWishcardDonation w
                | Inr event \<Rightarrow>
                    (case event_metadata event of
                       None \<Rightarrow> lastWishcardDonation w
                     | Some md \<Rightarrow> md_wishCardId md)))"
proof (cases "stripe_signature r")
  case None
  then show ?thesis by (simp add: handlePostWebhook_def paypalWebhook_slot)
next
  case (Some s)
  show ?thesis
  proof (cases "s = []")
    case True
    with Some show ?thesis by (simp add: handlePostWebhook_def paypalWebhook_slot)
  next
    case False
    have "lastWishcardDonation (snd (handlePostWebhook e r w)) =
            lastWishcardDonation (snd (stripeWebhook e r s w))"
      by (simp add: handlePostWebhook_signed [OF Some False] paypalWebhook_slot
               split: option.splits)
    also have "\<dots> =
       (case constructEvent e (rawBody r) s (signingSecret e) of
          Inl err \<Rightarrow> lastWishcardDonation w
        | Inr event \<Rightarrow>
            (case event_metadata event of
               None \<Rightarrow> lastWishcardDonation w
             | Some md \<Rightarrow> md_wishCardId md))"
      by (simp add: stripeWebhook_def handleDonation_frame split: sum.splits option.splits)
    finally show ?thesis using Some False by simp
  qed
qed

lemma js_split_head:
  "\<exists>ps. js_split sep s = takeWhile (\<lambda>c. c \<noteq> sep) s # ps"
  by (induction s) (auto split: list.splits)

lemmas model_defs =
  handlePostWebhook_def stripeWebhook_def paypalWebhook_def handleDonation_def
  paypalDonationArgs_def stripeDonationArgs_def js_index_def signingSecret_def received_def
  getUserByObjectId_def getWishCardByObjectId_def getAgencyByName_def
  updateWishCardByObjectId_def createNewDonation_def notify_def emit_def
  statusUpdates_def dispatches_def Let_def

lemmas example_defs =
  user1_def card9_def hope_def world0_def meta9_def env0_def cardRequest_def walletRequest_def
  donation9_def forgedRequest_def args9_def strangerArgs_def bareWorld_def strangerWorld_def
  gatedWorld_def meta7_def otherRequest_def bareRequest_def afterFailure_def afterOther_def
  registered_def

section \<open>Commit\<close>

text \<open>
  C6. When the intent's item id does not resolve to a wish card, \<^verbatim>\<open>handleDonation\<close> throws
  the not-found error for the item and leaves the world as it found it: no status update is
  performed and no donation record is created.
\<close>

theorem handleDonation_missing_item:
  "getWishCardByObjectId w (wishCardId a) = None \<Longrightarrow>
     handleDonation e a w = (Some (WishCardNotFound (wishCardId a)), w)
     \<and> statusUpdates (snd (handleDonation e a w)) = statusUpdates w
     \<and> donations (snd (handleDonation e a w)) = donations w"
  by (simp add: handleDonation_def)

theorem handleDonation_missing_item_witness:
  "getWishCardByObjectId bareWorld (wishCardId args9) = None
   \<and> handleDonation env0 args9 bareWorld = (Some (WishCardNotFound (Some ''i9'')), bareWorld)
   \<and> statusUpdates (snd (handleDonation env0 args9 bareWorld)) = []
   \<and> donations (snd (handleDonation env0 args9 bareWorld)) = []"
proof -
  have miss: "getWishCardByObjectId bareWorld (wishCardId args9) = None"
    by (simp add: getWishCardByObjectId_def bareWorld_def)
  have "statusUpdates bareWorld = []" and "donations bareWorld = []"
    and "wishCardId args9 = Some ''i9''"
    by (simp_all add: statusUpdates_def bareWorld_def world0_def args9_def)
  with miss handleDonation_missing_item [OF miss, of env0] show ?thesis by simp
qed

text \<open>
  What a resolution miss does in general: the error names the first entity that misses, in
  the order item, payer, agency, and neither a donation record nor a dispatch follows.
\<close>

lemma handleDonation_miss:
  assumes "getWishCardByObjectId w (wishCardId a) = None
           \<or> getUserByObjectId w (userId a) = None
           \<or> getAgencyByName w (agencyName a) = None"
  shows "fst (handleDonation e a w) =
           Some (if getWishCardByObjectId w (wishCardId a) = None
                   then WishCardNotFound (wishCardId a)
                 else if getUserByObjectId w (userId a) = None then UserNotFound (userId a)
                 else AgencyNotFound (agencyName a))
    \<and> donations (snd (handleDonation e a w)) = donations w
    \<and> dispatches (snd (handleDonation e a w)) = dispatches w"
  using assms
  by (auto simp add: handleDonation_def dispatches_def Let_def split: option.splits)

text \<open>
  C2. The claim is that a miss of payer, item or agency fails the commit with no mutation at
  all. The source checks the item, then writes the status \<^verbatim>\<open>donated\<close>, and only then checks
  payer and agency. Evaluated for an intent whose item \<open>i9\<close> exists and whose payer
  \<open>u404\<close> does not: the call throws the payer's not-found error, no donation record is
  created, and the item has been marked donated, one status update having been performed.
\<close>

theorem handleDonation_unknown_payer_marks_item:
  "getUserByObjectId world0 (userId strangerArgs) = None
   \<and> fst (handleDonation env0 strangerArgs world0) = Some (UserNotFound (Some ''u404''))
   \<and> statusUpdates world0 = []
   \<and> statusUpdates (snd (handleDonation env0 strangerArgs world0)) =
       [UpdateWishCard ''i9'' ''donated'']
   \<and> map_option status (wishCards world0 (Some ''i9'')) = Some ''published''
   \<and> map_option status (wishCards (snd (handleDonation env0 strangerArgs world0)) (Some ''i9'')) =
       Some ''donated''
   \<and> donations (snd (handleDonation env0 strangerArgs world0)) = []"
  by (simp add: model_defs example_defs)

text \<open>
  C7. When payer, item and agency all resolve, the commit succeeds whatever the three
  notification channels do: each of the three dispatches is attempted, in the order payer
  confirmation, agency confirmation, public announcement; every channel that fails is
  logged; and the donation record has been created.
\<close>

theorem handleDonation_notifications_isolated:
  assumes "getUserByObjectId w (userId a) = Some u"
    and "getWishCardByObjectId w (wishCardId a) = Some wc"
    and "getAgencyByName w (agencyName a) = Some ag"
  shows "fst (handleDonation e a w) = None
    \<and> dispatches (snd (handleDonation e a w)) =
        dispatches w @ [Dispatch DonationConfirmationEmail, Dispatch AgencyDonationEmail,
                        Dispatch DiscordDonationNotification]
    \<and> (\<forall>c. sendThrows e (service a) c \<longrightarrow>
             LogError (MessagingError c) \<in> set (trace (snd (handleDonation e a w))))
    \<and> donations (snd (handleDonation e a w)) =
        donations w @ [\<lparr>donationFrom = user_id u, donationTo = belongsTo_id wc,
                        donationCard = wc_id wc, donationPrice = amount a\<rparr>]"
proof -
  have res: "fst (handleDonation e a w) = None"
    using assms by (simp add: handleDonation_def Let_def)
  have tr: "trace (snd (handleDonation e a w)) =
      trace w @ [UpdateWishCard (wc_id wc) ''donated'',
                 CreateDonation \<lparr>donationFrom = user_id u, donationTo = belongsTo_id wc,
                        donationCard = wc_id wc, donationPrice = amount a\<rparr>]
        @ [LogInfo ''Sending donation confirmation email'', Dispatch DonationConfirmationEmail]
        @ (if sendThrows e (service a) DonationConfirmationEmail
           then [LogError (MessagingError DonationConfirmationEmail)] else [])
        @ [LogInfo ''Sending agency donation email'', Dispatch AgencyDonationEmail]
        @ (if sendThrows e (service a) AgencyDonationEmail
           then [LogError (MessagingError AgencyDonationEmail)] else [])
        @ [LogInfo ''Sending discord donation notification'', Dispatch DiscordDonationNotification]
        @ (if sendThrows e (service a) DiscordDonationNotification
           then [LogError (MessagingError DiscordDonationNotification)] else [])"
    using assms by (simp add: handleDonation_def Let_def)
  have disp: "dispatches (snd (handleDonation e a w)) =
        dispatches w @ [Dispatch DonationConfirmationEmail, Dispatch AgencyDonationEmail,
                        Dispatch DiscordDonationNotification]"
    unfolding dispatches_def tr by simp
  have logged: "LogError (MessagingError c) \<in> set (trace (snd (handleDonation e a w)))"
    if "sendThrows e (service a) c" for c
    using that unfolding tr by (cases c) simp_all
  have don: "donations (snd (handleDonation e a w)) =
        donations w @ [\<lparr>donationFrom = user_id u, donationTo = belongsTo_id wc,
                        donationCard = wc_id wc, donationPrice = amount a\<rparr>]"
    using assms by (simp add: handleDonation_def Let_def)
  from res disp logged don show ?thesis by blast
qed

text \<open>In the concrete deployment the public announcement fails; the two confirmations are
  attempted all the same and the donation is committed.\<close>

theorem handleDonation_notifications_isolated_witness:
  "getUserByObjectId world0 (userId args9) = Some user1
   \<and> getWishCardByObjectId world0 (wishCardId args9) = Some card9
   \<and> getAgencyByName world0 (agencyName args9) = Some hope
   \<and> sendThrows env0 (service args9) DiscordDonationNotification
   \<and> fst (handleDonation env0 args9 world0) = None
   \<and> dispatches (snd (handleDonation env0 args9 world0)) =
       [Dispatch DonationConfirmationEmail, Dispatch AgencyDonationEmail,
        Dispatch DiscordDonationNotification]
   \<and> LogError (MessagingError DiscordDonationNotification)
       \<in> set (trace (snd (handleDonation env0 args9 world0)))
   \<and> donations (snd (handleDonation env0 args9 world0)) = [donation9 (Some ''37.5'')]"
proof -
  have u: "getUserByObjectId world0 (userId args9) = Some user1"
    by (simp add: getUserByObjectId_def world0_def args9_def)
  have c: "getWishCardByObjectId world0 (wishCardId args9) = Some card9"
    by (simp add: getWishCardByObjectId_def world0_def args9_def)
  have g: "getAgencyByName world0 (agencyName args9) = Some hope"
    by (simp add: getAgencyByName_def world0_def args9_def)
  have t: "sendThrows env0 (service args9) DiscordDonationNotification"
    by (simp add: env0_def)
  have d: "dispatches world0 = []" "donations world0 = []"
    by (simp_all add: dispatches_def world0_def)
  have r: "\<lparr>donationFrom = user_id user1, donationTo = belongsTo_id card9,
             donationCard = wc_id card9, donationPrice = amount args9\<rparr> = donation9 (Some ''37.5'')"
    by (simp add: user1_def card9_def args9_def donation9_def)
  from handleDonation_notifications_isolated [OF u c g, of env0] u c g t d r
  show ?thesis by simp
qed

section \<open>Webhook\<close>

text \<open>
  C4. A card-path request whose signature header is rejected by the verifier is answered
  with the client error 400 and a diagnostic body; the only effect is the logged error: no
  status update, no donation record, no notification dispatch, and the stores and the dedup
  slot are as before.
\<close>

theorem handlePostWebhook_bad_signature:
  assumes "stripe_signature r = Some s" and "s \<noteq> []"
    and "constructEvent e (rawBody r) s (signingSecret e) = Inl err"
  shows "handlePostWebhook e r w =
           (\<lparr>status_code = 400, body = WebhookError err\<rparr>, emit (LogError err) w)
    \<and> 400 \<le> status_code (fst (handlePostWebhook e r w))
    \<and> status_code (fst (handlePostWebhook e r w)) < 500
    \<and> statusUpdates (snd (handlePostWebhook e r w)) = statusUpdates w
    \<and> donations (snd (handlePostWebhook e r w)) = donations w
    \<and> dispatches (snd (handlePostWebhook e r w)) = dispatches w
    \<and> wishCards (snd (handlePostWebhook e r w)) = wishCards w
    \<and> users (snd (handlePostWebhook e r w)) = users w
    \<and> agencies (snd (handlePostWebhook e r w)) = agencies w
    \<and> lastWishcardDonation (snd (handlePostWebhook e r w)) = lastWishcardDonation w"
proof -
  have "handlePostWebhook e r w =
          (\<lparr>status_code = 400, body = WebhookError err\<rparr>, emit (LogError err) w)"
    using assms by (simp add: handlePostWebhook_def stripeWebhook_def)
  then show ?thesis by (simp add: statusUpdates_def dispatches_def)
qed

theorem handlePostWebhook_bad_signature_witness:
  "stripe_signature forgedRequest = Some ''bad''
   \<and> constructEvent env0 (rawBody forgedRequest) ''bad'' (signingSecret env0) =
       Inl (StripeSignatureError ''No signatures found matching the expected signature'')
   \<and> status_code (fst (handlePostWebhook env0 forgedRequest world0)) = 400
   \<and> donations (snd (handlePostWebhook env0 forgedRequest world0)) = []
   \<and> statusUpdates (snd (handlePostWebhook env0 forgedRequest world0)) = []
   \<and> dispatches (snd (handlePostWebhook env0 forgedRequest world0)) = []
   \<and> lastWishcardDonation (snd (handlePostWebhook env0 forgedRequest world0)) = Some []"
proof -
  have h: "stripe_signature forgedRequest = Some ''bad''"
    by (simp add: forgedRequest_def)
  have n: "''bad'' \<noteq> []" by simp
  have v: "constructEvent env0 (rawBody forgedRequest) ''bad'' (signingSecret env0) =
       Inl (StripeSignatureError ''No signatures found matching the expected signature'')"
    by (simp add: env0_def)
  have z: "donations world0 = []" "statusUpdates world0 = []" "dispatches world0 = []"
    "lastWishcardDonation world0 = Some []"
    by (simp_all add: world0_def statusUpdates_def dispatches_def)
  from handlePostWebhook_bad_signature [OF h n v, of world0] h v z
  show ?thesis by (simp add: statusUpdates_def dispatches_def)
qed

text \<open>
  C3, as stated, fails: a card-path request whose signature verifies and whose item does not
  resolve is answered 400 as well, because the \<^verbatim>\<open>catch\<close> that answers 400 encloses the commit
  and not only the verification.
\<close>

theorem handlePostWebhook_commit_failure_400:
  "stripe_signature cardRequest = Some ''good''
   \<and> constructEvent env0 (rawBody cardRequest) ''good'' (signingSecret env0) =
       Inr \<lparr>event_metadata = Some meta9\<rparr>
   \<and> fst (handlePostWebhook env0 cardRequest bareWorld) =
       \<lparr>status_code = 400, body = WebhookError (WishCardNotFound (Some ''i9''))\<rparr>"
  by (simp add: model_defs example_defs)

text \<open>
  C3, amended. Every webhook request is answered either with 200 and \<^verbatim>\<open>{received: true}\<close> or
  with 400 and a diagnostic body that carries the error caught. The requests answered 400
  are exactly the card-path requests (a non-empty signature header) in which the \<^verbatim>\<open>try\<close>
  block throws: the signature verification fails (the body carries the verifier's error); or
  the verified event carries no metadata (a \<^verbatim>\<open>TypeError\<close>); or the event passes the dedup
  slot and the commit throws, which for repositories that answer every call with records of
  the schema is the first of item, payer and agency that does not resolve. Every other request is answered 200: without
  a signature header, a duplicate, a commit that succeeds, and every wallet request.
\<close>

theorem handlePostWebhook_response:
  "fst (handlePostWebhook e r w) =
     (case stripe_signature r of
        None \<Rightarrow> \<lparr>status_code = 200, body = Received\<rparr>
      | Some s \<Rightarrow>
          if s = [] then \<lparr>status_code = 200, body = Received\<rparr>
          else
            (case constructEvent e (rawBody r) s (signingSecret e) of
               Inl err \<Rightarrow> \<lparr>status_code = 400, body = WebhookError err\<rparr>
             | Inr event \<Rightarrow>
                 (case event_metadata event of
                    None \<Rightarrow> \<lparr>status_code = 400, body = WebhookError TypeError\<rparr>
                  | Some md \<Rightarrow>
                      if lastWishcardDonation w = md_wishCardId md
                        then \<lparr>status_code = 200, body = Received\<rparr>
                      else if getWishCardByObjectId w (md_wishCardId md) = None
                        then \<lparr>status_code = 400,
                              body = WebhookError (WishCardNotFound (md_wishCardId md))\<rparr>
                      else if getUserByObjectId w (md_userId md) = None
                        then \<lparr>status_code = 400,
                              body = WebhookError (UserNotFound (md_userId md))\<rparr>
                      else if getAgencyByName w (md_agencyName md) = None
                        then \<lparr>status_code = 400,
                              body = WebhookError (AgencyNotFound (md_agencyName md))\<rparr>
                      else \<lparr>status_code = 200, body = Received\<rparr>)))"
proof (cases "stripe_signature r")
  case None
  then show ?thesis by (simp add: handlePostWebhook_def received_def)
next
  case (Some s)
  show ?thesis
  proof (cases "s = []")
    case True
    with Some show ?thesis by (simp add: handlePostWebhook_def received_def)
  next
    case False
    note signed = handlePostWebhook_signed [OF Some False, of e w]
    show ?thesis
    proof (cases "constructEvent e (rawBody r) s (signingSecret e)")
      case (Inl err)
      then have "stripeWebhook e r s w = (Some err, w)"
        by (simp add: stripeWebhook_def)
      with Some False Inl show ?thesis by (simp add: signed)
    next
      case (Inr event)
      show ?thesis
      proof (cases "event_metadata event")
        case None
        with Inr have "stripeWebhook e r s w = (Some TypeError, w)"
          by (simp add: stripeWebhook_def)
        with Some False Inr None show ?thesis by (simp add: signed)
      next
        case md: (Some md)
        show ?thesis
        proof (cases "lastWishcardDonation w = md_wishCardId md")
          case True
          with Inr md have "stripeWebhook e r s w = (None, w)"
            by (simp add: stripeWebhook_duplicate)
          with Some False Inr md True show ?thesis by (simp add: signed received_def)
        next
          case gate: False
          have "fst (stripeWebhook e r s w) =
                  fst (handleDonation e (stripeDonationArgs md)
                         (w\<lparr>lastWishcardDonation := md_wishCardId md\<rparr>))"
            using Inr md gate by (simp add: stripeWebhook_commit)
          then show ?thesis
            using Some False Inr md gate
            by (simp add: signed handleDonation_error received_def)
        qed
      qed
    qed
  qed
qed

text \<open>A forged signature, a signed event without metadata, and a wallet request.\<close>

theorem handlePostWebhook_response_witness:
  "fst (handlePostWebhook env0 forgedRequest world0) =
     \<lparr>status_code = 400, body = WebhookError
        (StripeSignatureError ''No signatures found matching the expected signature'')\<rparr>
   \<and> fst (handlePostWebhook env0 bareRequest world0) =
       \<lparr>status_code = 400, body = WebhookError TypeError\<rparr>
   \<and> fst (handlePostWebhook env0 cardRequest world0) = \<lparr>status_code = 200, body = Received\<rparr>
   \<and> fst (handlePostWebhook env0 walletRequest world0) = \<lparr>status_code = 200, body = Received\<rparr>"
  using handlePostWebhook_response [of env0 forgedRequest world0]
    handlePostWebhook_response [of env0 bareRequest world0]
    handlePostWebhook_response [of env0 cardRequest world0]
    handlePostWebhook_response [of env0 walletRequest world0]
  by (simp add: forgedRequest_def bareRequest_def cardRequest_def walletRequest_def env0_def
        signingSecret_def world0_def meta9_def getWishCardByObjectId_def getUserByObjectId_def
        getAgencyByName_def)

text \<open>
  C5. The claim is that the dedup slot is consulted for every verified event of either
  provider. The card path does so; the wallet path (lines 214 to 240) calls
  \<^verbatim>\<open>handleDonation\<close> without reading or writing \<^verbatim>\<open>lastWishcardDonation\<close>. Evaluated for a
  verified wallet event for item \<open>i9\<close>: with the slot already remembering \<open>i9\<close> the
  commit proceeds all the same, and after a wallet commit from the initial state the slot
  still holds its initial value.
\<close>

theorem wallet_path_ignores_gate:
  "lastWishcardDonation gatedWorld = Some ''i9''
   \<and> wishCardId (paypalDonationArgs ''u1%i9%5.00%HopeAgency'' (Some ''37.50'')) = Some ''i9''
   \<and> fst (handlePostWebhook env0 walletRequest gatedWorld) = received
   \<and> donations (snd (handlePostWebhook env0 walletRequest gatedWorld)) =
       [donation9 (Some ''37.50'')]
   \<and> statusUpdates (snd (handlePostWebhook env0 walletRequest gatedWorld)) =
       [UpdateWishCard ''i9'' ''donated'']
   \<and> lastWishcardDonation (snd (handlePostWebhook env0 walletRequest world0)) = Some []"
  by (simp add: model_defs example_defs)

text \<open>
  C1. The claim is that a payload of either provider delivered twice in a row yields one
  donation record and one status update. Evaluated for the wallet payload delivered twice
  from the initial state: two donation records and two status updates. The same deployment
  fed the card payload twice yields one of each, which is what the dedup slot is for.
\<close>

theorem wallet_duplicate_commits_twice:
  "donations (redeliver env0 walletRequest 2 world0) =
     [donation9 (Some ''37.50''), donation9 (Some ''37.50'')]
   \<and> statusUpdates (redeliver env0 walletRequest 2 world0) =
     [UpdateWishCard ''i9'' ''donated'', UpdateWishCard ''i9'' ''donated'']
   \<and> donations (redeliver env0 cardRequest 2 world0) = [donation9 (Some ''37.5'')]
   \<and> statusUpdates (redeliver env0 cardRequest 2 world0) = [UpdateWishCard ''i9'' ''donated'']"
  by (simp add: numeral_2_eq_2 model_defs example_defs)

text \<open>
  C8. The wallet path decodes the reference string positionally, by splitting it at every
  delimiter: a string \<open>u % i % s % ag\<close>, in which \<open>u\<close>, \<open>i\<close> and \<open>s\<close> are the
  text before the first three delimiters, yields payer \<open>u\<close>, item \<open>i\<close>, supplemental
  amount \<open>s\<close> and as agency the text of \<open>ag\<close> up to its next delimiter (all of \<open>ag\<close>
  when it has none). Every reference string with at least three delimiters is of this form.
  The charged amount is the value of the purchase unit's own amount object, whatever \<open>s\<close>
  is, and for a verified order-approved event the commit is run on exactly this intent; a
  purchase unit without an amount object makes the callback throw before any commit. The
  source keeps both amounts as the decimal text it received; it does not convert them.
\<close>

theorem paypal_reference_decoding:
  assumes "CHR ''%'' \<notin> set u" and "CHR ''%'' \<notin> set i" and "CHR ''%'' \<notin> set s"
    and "event_type r = Some ''CHECKOUT.ORDER.APPROVED''"
    and "getAndVerify e (rawBody r) = None"
    and "purchase_units r =
           \<lparr>reference_id = Some (u @ ''%'' @ i @ ''%'' @ s @ ''%'' @ ag), pu_amount = a\<rparr> # rest"
  shows "paypalDonationArgs (u @ ''%'' @ i @ ''%'' @ s @ ''%'' @ ag) v =
           \<lparr>service = Paypal, userId = Some u, wishCardId = Some i, amount = v,
            userDonation = Some s,
            agencyName = Some (takeWhile (\<lambda>c. c \<noteq> CHR ''%'') ag)\<rparr>
    \<and> paypalWebhook e r w =
        (case a of
           None \<Rightarrow> emit (Unhandled TypeError) w
         | Some amt \<Rightarrow>
             (case fst (handleDonation e
                     \<lparr>service = Paypal, userId = Some u, wishCardId = Some i, amount = amt,
                      userDonation = Some s,
                      agencyName = Some (takeWhile (\<lambda>c. c \<noteq> CHR ''%'') ag)\<rparr> w) of
                None \<Rightarrow> snd (handleDonation e
                     \<lparr>service = Paypal, userId = Some u, wishCardId = Some i, amount = amt,
                      userDonation = Some s,
                      agencyName = Some (takeWhile (\<lambda>c. c \<noteq> CHR ''%'') ag)\<rparr> w)
              | Some err \<Rightarrow> emit (Unhandled err) (snd (handleDonation e
                     \<lparr>service = Paypal, userId = Some u, wishCardId = Some i, amount = amt,
                      userDonation = Some s,
                      agencyName = Some (takeWhile (\<lambda>c. c \<noteq> CHR ''%'') ag)\<rparr> w))))"
proof -
  define ref where "ref = u @ ''%'' @ i @ ''%'' @ s @ ''%'' @ ag"
  let ?args = "\<lambda>x. \<lparr>service = Paypal, userId = Some u, wishCardId = Some i, amount = x,
            userDonation = Some s,
            agencyName = Some (takeWhile (\<lambda>c. c \<noteq> CHR ''%'') ag)\<rparr>"
  obtain ps where ps: "js_split CHR ''%'' ag = takeWhile (\<lambda>c. c \<noteq> CHR ''%'') ag # ps"
    using js_split_head by blast
  have dec: "paypalDonationArgs ref x = ?args x" for x
    using assms(1-3)
    by (simp add: ref_def paypalDonationArgs_def js_split_field ps js_index_def Let_def)
  have pu: "purchase_units r = \<lparr>reference_id = Some ref, pu_amount = a\<rparr> # rest"
    using assms(6) by (simp add: ref_def)
  have run: "paypalWebhook e r w =
      (case a of
         None \<Rightarrow> emit (Unhandled TypeError) w
       | Some amt \<Rightarrow>
          (case handleDonation e (paypalDonationArgs ref amt) w of
             (None, w') \<Rightarrow> w' | (Some err, w') \<Rightarrow> emit (Unhandled err) w'))"
    using assms(4,5) pu by (simp add: paypalWebhook_def)
  have "paypalWebhook e r w =
        (case a of
           None \<Rightarrow> emit (Unhandled TypeError) w
         | Some amt \<Rightarrow>
             (case fst (handleDonation e (?args amt) w) of
                None \<Rightarrow> snd (handleDonation e (?args amt) w)
              | Some err \<Rightarrow> emit (Unhandled err) (snd (handleDonation e (?args amt) w))))"
    unfolding run dec by (simp split: prod.splits option.splits)
  with dec [of v] show ?thesis unfolding ref_def by blast
qed

text \<open>The reference string of the spec, with the amount \<open>37.50\<close> and with no amount object;
  and an agency name that contains the delimiter, which is cut at it.\<close>

theorem paypal_reference_decoding_witness:
  "paypalDonationArgs ''u1%i9%5.00%HopeAgency'' (Some ''37.50'') =
     \<lparr>service = Paypal, userId = Some ''u1'', wishCardId = Some ''i9'', amount = Some ''37.50'',
      userDonation = Some ''5.00'', agencyName = Some ''HopeAgency''\<rparr>
   \<and> donations (paypalWebhook env0 walletRequest world0) = [donation9 (Some ''37.50'')]
   \<and> paypalWebhook env0
        (walletRequest\<lparr>purchase_units :=
           [\<lparr>reference_id = Some ''u1%i9%5.00%HopeAgency'', pu_amount = None\<rparr>]\<rparr>) world0 =
       emit (Unhandled TypeError) world0
   \<and> agencyName (paypalDonationArgs ''u1%i9%5.00%100% Kids'' (Some ''37.50'')) = Some ''100''"
proof -
  have a: "CHR ''%'' \<notin> set ''u1''" "CHR ''%'' \<notin> set ''i9''" "CHR ''%'' \<notin> set ''5.00''"
    by simp_all
  have b: "event_type walletRequest = Some ''CHECKOUT.ORDER.APPROVED''"
    "getAndVerify env0 (rawBody walletRequest) = None"
    by (simp_all add: walletRequest_def env0_def)
  have c: "purchase_units walletRequest =
      \<lparr>reference_id = Some (''u1'' @ ''%'' @ ''i9'' @ ''%'' @ ''5.00'' @ ''%'' @ ''HopeAgency''),
       pu_amount = Some (Some ''37.50'')\<rparr> # []"
    by (simp add: walletRequest_def)
  let ?r = "walletRequest\<lparr>purchase_units :=
           [\<lparr>reference_id = Some ''u1%i9%5.00%HopeAgency'', pu_amount = None\<rparr>]\<rparr>"
  have b': "event_type ?r = Some ''CHECKOUT.ORDER.APPROVED''"
    "getAndVerify env0 (rawBody ?r) = None"
    by (simp_all add: walletRequest_def env0_def)
  have c': "purchase_units ?r =
      \<lparr>reference_id = Some (''u1'' @ ''%'' @ ''i9'' @ ''%'' @ ''5.00'' @ ''%'' @ ''HopeAgency''),
       pu_amount = None\<rparr> # []"
    by simp
  have d: "fst (handleDonation env0 \<lparr>service = Paypal, userId = Some ''u1'',
             wishCardId = Some ''i9'', amount = Some ''37.50'', userDonation = Some ''5.00'',
             agencyName = Some ''HopeAgency''\<rparr> world0) = None"
    and e: "donations (snd (handleDonation env0 \<lparr>service = Paypal, userId = Some ''u1'',
             wishCardId = Some ''i9'', amount = Some ''37.50'', userDonation = Some ''5.00'',
             agencyName = Some ''HopeAgency''\<rparr> world0)) = [donation9 (Some ''37.50'')]"
    by (simp_all add: model_defs example_defs)
  have f: "agencyName (paypalDonationArgs ''u1%i9%5.00%100% Kids'' (Some ''37.50'')) = Some ''100''"
    by (simp add: paypalDonationArgs_def js_index_def)
  from paypal_reference_decoding [OF a b c, of "Some ''37.50''" world0]
    paypal_reference_decoding [OF a b' c', of "Some ''37.50''" world0] d e f
  show ?thesis by simp
qed

text \<open>
  C10, as stated, fails in its conclusion. The slot remembers one item id only, and every
  verified card event that passes it overwrites it. The card event for \<open>i9\<close> fails for
  want of its payer and leaves the slot at \<open>i9\<close>; the card event for \<open>i7\<close> follows and
  moves the slot to \<open>i7\<close>; the redelivery for \<open>i9\<close> is then not a duplicate: it runs the
  commit again (a second status update), and once the payer has registered it creates the
  donation record.
\<close>

theorem card_redelivery_after_other_event_commits:
  "fst (handlePostWebhook env0 cardRequest strangerWorld) =
     \<lparr>status_code = 400, body = WebhookError (UserNotFound (Some ''u1''))\<rparr>
   \<and> lastWishcardDonation afterFailure = Some ''i9''
   \<and> donations afterFailure = []
   \<and> lastWishcardDonation afterOther = Some ''i7''
   \<and> donations afterOther = []
   \<and> statusUpdates (snd (handlePostWebhook env0 cardRequest afterOther)) =
       [UpdateWishCard ''i9'' ''donated'', UpdateWishCard ''i9'' ''donated'']
   \<and> fst (handlePostWebhook env0 cardRequest (registered afterOther)) = received
   \<and> donations (snd (handlePostWebhook env0 cardRequest (registered afterOther))) =
       [donation9 (Some ''37.5'')]"
  by (simp add: model_defs example_defs)

text \<open>
  C10, amended. On the card path the dedup slot is set to the verified event's item id
  before the commit runs (the commit is run on the world in which the slot already holds the
  id), and nothing resets it, whether the commit returns or throws. Hence, for as long as the
  slot still holds that id, that is until a verified card event for another item id arrives,
  an identical redelivery is a duplicate: it is answered 200 and changes nothing. In
  particular any number of redeliveries in a row right after the delivery change nothing,
  and when that delivery failed no donation record has been created by it or by them.
\<close>

theorem card_redelivery_suppressed:
  assumes "stripe_signature r = Some s" and "s \<noteq> []"
    and "constructEvent e (rawBody r) s (signingSecret e) = Inr event"
    and "event_metadata event = Some md"
    and "event_type r \<noteq> Some ''CHECKOUT.ORDER.APPROVED''"
  shows "(lastWishcardDonation w \<noteq> md_wishCardId md \<longrightarrow>
            stripeWebhook e r s w =
              handleDonation e (stripeDonationArgs md)
                (w\<lparr>lastWishcardDonation := md_wishCardId md\<rparr>))
    \<and> lastWishcardDonation (snd (handlePostWebhook e r w)) = md_wishCardId md
    \<and> (lastWishcardDonation w' = md_wishCardId md \<longrightarrow> handlePostWebhook e r w' = (received, w'))
    \<and> redeliver e r n (snd (handlePostWebhook e r w)) = snd (handlePostWebhook e r w)
    \<and> (fst (handlePostWebhook e r w) \<noteq> received \<longrightarrow>
         donations (redeliver e r n (snd (handlePostWebhook e r w))) = donations w)"
proof -
  let ?w1 = "snd (handlePostWebhook e r w)"
  let ?w = "w\<lparr>lastWishcardDonation := md_wishCardId md\<rparr>"
  note first = card_first_delivery [OF assms(1,2,5)]
  have before: "stripeWebhook e r s w = handleDonation e (stripeDonationArgs md) ?w"
    if "lastWishcardDonation w \<noteq> md_wishCardId md"
    using assms(3,4) that by (rule stripeWebhook_commit)
  have gate: "lastWishcardDonation ?w1 = md_wishCardId md"
    using stripeWebhook_gate [OF assms(3,4), of w]
    by (simp add: first split: option.splits)
  have later: "handlePostWebhook e r w' = (received, w')"
    if "lastWishcardDonation w' = md_wishCardId md"
    using assms that by (rule card_duplicate_noop)
  have stay: "redeliver e r n ?w1 = ?w1"
    using assms gate by (rule redeliver_duplicate)
  have failed: "donations ?w1 = donations w" if "fst (handlePostWebhook e r w) \<noteq> received"
  proof (cases "lastWishcardDonation w = md_wishCardId md")
    case True
    with assms have "handlePostWebhook e r w = (received, w)"
      by (rule card_duplicate_noop)
    with that show ?thesis by simp
  next
    case False
    note sw = before [OF False]
    from that obtain err
      where err: "fst (handleDonation e (stripeDonationArgs md) ?w) = Some err"
      by (cases "fst (handleDonation e (stripeDonationArgs md) ?w)")
         (auto simp add: first sw)
    then have "donations (snd (handleDonation e (stripeDonationArgs md) ?w)) = donations ?w"
      by (rule handleDonation_throw_donations)
    with err show ?thesis
      by (simp add: first sw)
  qed
  from before gate later stay failed show ?thesis by simp
qed

text \<open>The delivery for \<open>i9\<close> that fails for want of its payer, redelivered three times.\<close>

theorem card_redelivery_suppressed_witness:
  "stripe_signature cardRequest = Some ''good''
   \<and> constructEvent env0 (rawBody cardRequest) ''good'' (signingSecret env0) =
       Inr \<lparr>event_metadata = Some meta9\<rparr>
   \<and> event_type cardRequest \<noteq> Some ''CHECKOUT.ORDER.APPROVED''
   \<and> lastWishcardDonation strangerWorld \<noteq> md_wishCardId meta9
   \<and> fst (handlePostWebhook env0 cardRequest strangerWorld) =
       \<lparr>status_code = 400, body = WebhookError (UserNotFound (Some ''u1''))\<rparr>
   \<and> lastWishcardDonation (snd (handlePostWebhook env0 cardRequest strangerWorld)) = Some ''i9''
   \<and> handlePostWebhook env0 cardRequest gatedWorld = (received, gatedWorld)
   \<and> donations (redeliver env0 cardRequest 3 (snd (handlePostWebhook env0 cardRequest strangerWorld)))
       = []"
proof -
  have h: "stripe_signature cardRequest = Some ''good''"
    by (simp add: cardRequest_def)
  have n: "''good'' \<noteq> []" by simp
  have v: "constructEvent env0 (rawBody cardRequest) ''good'' (signingSecret env0) =
             Inr \<lparr>event_metadata = Some meta9\<rparr>"
    by (simp add: env0_def signingSecret_def cardRequest_def)
  have m: "event_metadata \<lparr>event_metadata = Some meta9\<rparr> = Some meta9" by simp
  have t: "event_type cardRequest \<noteq> Some ''CHECKOUT.ORDER.APPROVED''"
    by (simp add: cardRequest_def)
  have f: "fst (handlePostWebhook env0 cardRequest strangerWorld) =
       \<lparr>status_code = 400, body = WebhookError (UserNotFound (Some ''u1''))\<rparr>"
    by (simp add: model_defs example_defs)
  have g: "fst (handlePostWebhook env0 cardRequest strangerWorld) \<noteq> received"
    unfolding f by (simp add: received_def)
  have z: "donations strangerWorld = []" "md_wishCardId meta9 = Some ''i9''"
    "lastWishcardDonation strangerWorld \<noteq> md_wishCardId meta9"
    "lastWishcardDonation gatedWorld = md_wishCardId meta9"
    by (simp_all add: strangerWorld_def gatedWorld_def world0_def meta9_def)
  from card_redelivery_suppressed [OF h n v m t, of strangerWorld gatedWorld 3] h v t f g z
  show ?thesis by auto
qed

section \<open>Create intent\<close>

text \<open>The two branches of the handler, and the three amounts that the examples charge,
  computed in binary64.\<close>

lemma handlePostCreateIntent_missing_item:
  "getWishCardByObjectId w (ci_wishCardId rq) = None \<Longrightarrow>
     handlePostCreateIntent c rq w = ErrorResponse ''Wishcard not found''"
  by (simp add: handlePostCreateIntent_def)

lemma handlePostCreateIntent_client_secret:
  "getWishCardByObjectId w (ci_wishCardId rq) = Some wishCard \<Longrightarrow>
   paymentIntents_create c (intentParams c rq wishCard) = Inr secret \<Longrightarrow>
     handlePostCreateIntent c rq w = ClientSecret secret"
  by (simp add: handlePostCreateIntent_def)

lemma cents_0_57: "dfloor (dmul (parseFloat ''0.57'') (Num 100)) = Num 56"
  by code_simp

lemma cents_17_99_plus_1: 
  "dfloor (dmul (dadd (parseFloat ''17.99'') (parseFloat ''1.00'')) (Num 100)) = Num 1898"
  by code_simp

lemma cents_32_50_plus_5:
  "dfloor (dmul (dadd (parseFloat ''32.50'') (parseFloat ''5.00'')) (Num 100)) = Num 3750"
  by code_simp

text \<open>
  C9. The claim is that the intent's amount is the floor of 100 times the sum of the item's
  total price and the supplemental amount, as the source's comment has it ("1$ == 100").
  The source computes \<^verbatim>\<open>Math.floor(totalItemPrice * PENNY)\<close> on binary64 numbers, and the
  product of the nearest number to a decimal price and 100 can fall just below the whole
  number of cents. Evaluated: the claim's own example charges 3750 for 32.50 plus 5.00; a
  total of 0.57 charges 56 where 100 times 0.57 is 57; and 17.99 plus 1.00 charges 1898
  where 100 times 18.99 is 1899. The client secret is returned in each case, and a missing
  item gives the error response.
\<close>

theorem create_intent_floor_loses_a_cent:
  "handlePostCreateIntent shop0 intent57 shopWorld = ClientSecret (Some ''pi_secret'')
   \<and> getWishCardByObjectId shopWorld (ci_wishCardId intent57) = Some card57
   \<and> pi_amount (intentParams shop0 intent57 card57) = Num 56
   \<and> \<lfloor>100 * (57 / 100 :: rat)\<rfloor> = 57
   \<and> getWishCardByObjectId shopWorld (ci_wishCardId intent1799) = Some card1799
   \<and> pi_amount (intentParams shop0 intent1799 card1799) = Num 1898
   \<and> \<lfloor>100 * (1799 / 100 + 1 :: rat)\<rfloor> = 1899
   \<and> getWishCardByObjectId shopWorld (ci_wishCardId intent9) = Some card9
   \<and> pi_amount (intentParams shop0 intent9 card9) = Num 3750
   \<and> handlePostCreateIntent shop0 intent9 bareWorld = ErrorResponse ''Wishcard not found''"
  by (simp add: handlePostCreateIntent_def intentParams_def totalItemPrice_def truthy_def
        PENNY_def getWishCardByObjectId_def shop0_def shopWorld_def bareWorld_def world0_def
        intent57_def intent1799_def intent9_def card57_def card1799_def card9_def
        cents_0_57 cents_17_99_plus_1 cents_32_50_plus_5)

end
